theory Spec2Isabelle
  imports Main "HOL-Library.Multiset"
begin

section \<open>Delete-response handling (include/maidsafe/nfs/utils.h)\<close>

text \<open>
  \<^verbatim>\<open>HandleDeleteResponse\<close> receives the serialised replies of a peer group to one
  Delete request, decodes each of them into a \<^verbatim>\<open>ReturnCode\<close>, counts successes and
  failures, and calls \<^verbatim>\<open>on_error_functor\<close> when no reply was a success.

  The function returns \<^verbatim>\<open>void\<close>; what it does are effects, and an exception of the
  functor may leave it. The model threads a frame holding the two local counters, the
  by-value parameter \<^verbatim>\<open>original_data_message\<close> and the list of effects produced so
  far, oldest first.
\<close>

subsection \<open>Collaborators that are not part of the file\<close>

text \<open>
  The expression
  \<^verbatim>\<open>ReturnCode((ReturnCode::serialised_type(NonEmptyString(serialised_message))))\<close>
  is built from types of other headers. It either yields a \<^verbatim>\<open>ReturnCode\<close>, whose
  \<^verbatim>\<open>value()\<close> is an \<^verbatim>\<open>int\<close>, or throws; the exceptions of these libraries derive
  from \<^verbatim>\<open>std::exception\<close>, which is what the handler of the loop catches. The whole
  expression is a parameter \<open>parse\<close> of the model, with \<open>Inl\<close> for the thrown
  exception. The enumerator \<^verbatim>\<open>CommonErrors::success\<close> is a parameter too (its
  numeric value once cast), called \<open>success\<close>.
\<close>

datatype std_exception = std_exception (what: string)

record ReturnCode =
  "value" :: int

type_synonym ReturnCode_ctor = "string \<Rightarrow> std_exception + ReturnCode"

subsection \<open>Effects and the frame\<close>

text \<open>
  \<^verbatim>\<open>std::move(original_data_message)\<close> hands the message to the functor's by-value
  parameter and leaves the local variable moved-from.
\<close>

datatype 'm moved = intact 'm | moved_from

datatype 'm effect =
    LogError_no_responses                \<comment> \<open>line 71\<close>
  | on_error_functor "'m moved"          \<comment> \<open>lines 73 and 102\<close>
  | LogWarning_received_error int        \<comment> \<open>line 85, with \<^verbatim>\<open>return_code.value()\<close>\<close>
  | LogError_what string                 \<comment> \<open>line 93, with \<^verbatim>\<open>e.what()\<close>\<close>
  | LogError_no_successful int           \<comment> \<open>line 98, with \<^verbatim>\<open>failure_count\<close>\<close>
  | LogVerbose_overall_success int int   \<comment> \<open>line 104, with both counters\<close>

record 'm frame =
  success_count :: int
  failure_count :: int
  original_data_message :: "'m moved"
  effects :: "'m effect list"

definition emit :: "'m effect \<Rightarrow> 'm frame \<Rightarrow> 'm frame" where
  "emit e fr = fr\<lparr>effects := effects fr @ [e]\<rparr>"

text \<open>
  \<^verbatim>\<open>on_error_functor\<close> is a \<^verbatim>\<open>std::function\<close> supplied by the caller. Called on the
  message it either returns or throws (an empty one throws \<^verbatim>\<open>bad_function_call\<close>); it
  is the parameter \<open>on_error\<close>, with \<open>Some x\<close> for throwing \<open>x\<close>. Both calls of the
  source, \<^verbatim>\<open>on_error_functor(std::move(original_data_message));\<close>, are outside the
  \<^verbatim>\<open>try\<close> block, so what the functor throws leaves the function (\<open>Inl\<close>).
\<close>

type_synonym ('m, 'x) OnError = "'m moved \<Rightarrow> 'x option"

definition call_on_error :: "('m, 'x) OnError \<Rightarrow> 'm frame \<Rightarrow> ('x + unit) \<times> 'm frame" where
  "call_on_error on_error fr =
     (case on_error (original_data_message fr) of
        Some x \<Rightarrow> Inl x
      | None \<Rightarrow> Inr (),
      (emit (on_error_functor (original_data_message fr)) fr)\<lparr>original_data_message := moved_from\<rparr>)"

subsection \<open>The loop\<close>

text \<open>
  One iteration. The \<^verbatim>\<open>try\<close> block constructs the return code and compares it with
  \<^verbatim>\<open>CommonErrors::success\<close>; an exception of the construction leaves the block
  before either counter is touched (\<open>Inl\<close>). The \<^verbatim>\<open>catch\<close> block counts a failure
  and logs \<^verbatim>\<open>e.what()\<close>; the iteration then ends normally.
\<close>

definition try_block :: "ReturnCode_ctor \<Rightarrow> int \<Rightarrow> 'm frame \<Rightarrow> string \<Rightarrow> std_exception + 'm frame" where
  "try_block parse success fr serialised_message =
     (case parse serialised_message of
        Inl e \<Rightarrow> Inl e
      | Inr return_code \<Rightarrow>
          Inr (if value return_code = success
               then fr\<lparr>success_count := success_count fr + 1\<rparr>
               else (emit (LogWarning_received_error (value return_code)) fr)
                      \<lparr>failure_count := failure_count fr + 1\<rparr>))"

definition catch_block :: "'m frame \<Rightarrow> std_exception \<Rightarrow> 'm frame" where
  "catch_block fr e = emit (LogError_what (what e)) (fr\<lparr>failure_count := failure_count fr + 1\<rparr>)"

definition loop_body :: "ReturnCode_ctor \<Rightarrow> int \<Rightarrow> 'm frame \<Rightarrow> string \<Rightarrow> 'm frame" where
  "loop_body parse success fr serialised_message =
     (case try_block parse success fr serialised_message of
        Inr fr' \<Rightarrow> fr'
      | Inl e \<Rightarrow> catch_block fr e)"

fun for_each :: "ReturnCode_ctor \<Rightarrow> int \<Rightarrow> 'm frame \<Rightarrow> string list \<Rightarrow> 'm frame" where
  "for_each parse success fr [] = fr"
| "for_each parse success fr (serialised_message # rest) =
     for_each parse success (loop_body parse success fr serialised_message) rest"

subsection \<open>The function\<close>

text \<open>
  The result is what the call does to its caller, \<open>Inr ()\<close> for a return and \<open>Inl x\<close>
  for the exception \<open>x\<close> that leaves it, together with the frame at that moment.
\<close>

definition HandleDeleteResponse ::
  "ReturnCode_ctor \<Rightarrow> int \<Rightarrow> ('m, 'x) OnError \<Rightarrow> 'm \<Rightarrow> string list
     \<Rightarrow> ('x + unit) \<times> 'm frame" where
  "HandleDeleteResponse parse success on_error message serialised_messages =
     (let fr0 = \<lparr>success_count = 0, failure_count = 0,
                 original_data_message = intact message, effects = []\<rparr>;
          (r1, fr1) = (if serialised_messages = []
                       then call_on_error on_error (emit LogError_no_responses fr0)
                       else (Inr (), fr0))
      in case r1 of
           Inl x \<Rightarrow> (Inl x, fr1)
         | Inr u \<Rightarrow>
             (let fr2 = for_each parse success fr1 serialised_messages;
                  (r3, fr3) =
                    (if success_count fr2 = 0
                     then call_on_error on_error
                            (emit (LogError_no_successful (failure_count fr2)) fr2)
                     else (Inr (), fr2))
              in case r3 of
                   Inl x \<Rightarrow> (Inl x, fr3)
                 | Inr u \<Rightarrow>
                     (Inr (),
                      emit (LogVerbose_overall_success (success_count fr3) (failure_count fr3))
                        fr3)))"

subsection \<open>Observations on a finished call\<close>

fun is_on_error :: "'m effect \<Rightarrow> bool" where
  "is_on_error (on_error_functor _) = True"
| "is_on_error _ = False"

definition on_error_calls :: "'m frame \<Rightarrow> nat" where
  "on_error_calls fr = length (filter is_on_error (effects fr))"

definition signals_failure :: "'m frame \<Rightarrow> bool" where
  "signals_failure fr = (0 < on_error_calls fr)"

text \<open>A reply decodes to a success return code.\<close>

definition decodes_to_success :: "ReturnCode_ctor \<Rightarrow> int \<Rightarrow> string \<Rightarrow> bool" where
  "decodes_to_success parse success m =
     (case parse m of Inr return_code \<Rightarrow> value return_code = success | Inl e \<Rightarrow> False)"

definition throws :: "ReturnCode_ctor \<Rightarrow> string \<Rightarrow> bool" where
  "throws parse m = (case parse m of Inl e \<Rightarrow> True | Inr return_code \<Rightarrow> False)"

text \<open>
  A decoder for the concrete evaluations below: the empty string is rejected (as
  \<^verbatim>\<open>NonEmptyString\<close> does), the string \<open>ok\<close> carries the value 0, \<open>bad\<close> carries
  the value 7 and anything else fails to parse.
\<close>

definition sample_parse :: ReturnCode_ctor where
  "sample_parse s =
     (if s = [] then Inl (std_exception ''invalid string size'')
      else if s = ''ok'' then Inr \<lparr>value = 0\<rparr>
      else if s = ''bad'' then Inr \<lparr>value = 7\<rparr>
      else Inl (std_exception ''parsing error''))"

text \<open>
  Two functors for the concrete evaluations: one that returns, and an empty
  \<^verbatim>\<open>std::function\<close>, whose call throws.
\<close>

definition returning_functor :: "(string, std_exception) OnError" where
  "returning_functor a = None"

definition empty_functor :: "(string, std_exception) OnError" where
  "empty_functor a = Some (std_exception ''bad_function_call'')"

section \<open>The client facade (src/maidsafe/nfs/client/maid_node_nfs.cc)\<close>

text \<open>
  The file holds two revisions of \<^verbatim>\<open>maid_node_nfs.cc\<close>. The later one implements all
  five operations of \<^verbatim>\<open>MaidNodeNfs\<close> and the free function \<^verbatim>\<open>CreateAccount\<close>; in the
  first one only \<^verbatim>\<open>CreateAccount\<close> is implemented and the other four operations are
  \<^verbatim>\<open>assert(0)\<close>. Definitions of the first revision carry the suffix \<open>_rev1\<close>.
  The members of the class are written without their trailing underscore
  (\<open>create_account_timer\<close> for \<^verbatim>\<open>create_account_timer_\<close>), and the member functions
  with the prefix \<open>MaidNodeNfs_\<close>.
\<close>

subsection \<open>Values\<close>

text \<open>
  Identities, keys and request payloads are opaque to the facade; they are strings here.
  A \<^verbatim>\<open>steady_clock::duration\<close> is a number of ticks.
\<close>

type_synonym Name = string
type_synonym AccountRemoval = string
type_synonym PmidRegistration = string
type_synonym duration = int
type_synonym TaskId = nat
type_synonym promise_ref = nat

record AccountCreation =
  public_maid :: string
  public_anmaid :: string

datatype error_code =
    VaultErrors_failed_to_handle_request
  | VaultErrors_account_already_exists
  | VaultErrors_unique_data_clash
  | other_error_code nat

datatype exception =
    maidsafe_error (code: error_code)
  | other_exception
  | DuplicateOperation
  | TransportUnavailable
  | assertion_failure

text \<open>
  The shared state of a \<^verbatim>\<open>boost::promise\<close> and its future. The value of a resolved
  future plays no role in this file and is left out.
\<close>

datatype shared_state = unresolved | has_value | has_exception exception

text \<open>
  The response functors are closures over the promise; \<^verbatim>\<open>nfs::OpData\<close> is constructed
  from the number of successes it requires and the functor.
\<close>

datatype response_functor =
    HandleCreateAccountResult promise_ref
  | HandleRegisterPmidResult promise_ref
  | HandlePmidHealthResult promise_ref

record OpData =
  successes_required :: int
  callback :: response_functor

subsection \<open>The timers\<close>

text \<open>
  Modelled from the spec: \<^verbatim>\<open>routing::Timer\<close> is not among the sources. Following
  sections 4.1 and 4.2 of the specification, \<^verbatim>\<open>NewTaskId\<close> is a pure counter and
  \<^verbatim>\<open>AddTask\<close> inserts a pending entry (timeout, delivery functor, expected response
  count) under the given identifier, failing with \<open>DuplicateOperation\<close> when the
  identifier is already present. The functor given to \<^verbatim>\<open>AddTask\<close> is a closure that
  owns the \<^verbatim>\<open>OpData\<close>; the entry stores the \<^verbatim>\<open>OpData\<close>.
\<close>

record Task =
  timeout :: duration
  "functor" :: OpData
  expected_response_count :: int

record Timer =
  new_task_id :: TaskId
  tasks :: "TaskId \<rightharpoonup> Task"

datatype timer_name =
    get_timer | put_timer | get_versions_timer | get_branch_timer
  | create_account_timer | pmid_health_timer | create_version_tree_timer
  | put_version_timer | register_pmid_timer

subsection \<open>Calls on the collaborators and the state\<close>

text \<open>
  Modelled from the spec: the dispatcher (\<^verbatim>\<open>dispatcher_\<close>) and the routing layer it
  is built on are not among the sources. Following sections 4.4, 6 and 7 of the
  specification, a send is a stateless translation of a request and an identifier into
  one send to the routing layer, which neither waits for responses nor knows about them;
  it fails only if the routing layer cannot accept the send, with
  \<open>TransportUnavailable\<close>, and the failure propagates synchronously to the caller. Of
  the routing layer the model keeps whether it accepts a send at the moment. A send is
  recorded as the call the facade makes, with its arguments, whether it is accepted or
  not.
\<close>

datatype Routing = Routing (accepts: bool)

datatype cout_line =
    cant_create_account
  | account_already_existed
  | caught_an_unknown_exception
  | Account_created_for_maid string

datatype call =
    Call_NewTaskId timer_name TaskId
  | Call_AddTask timer_name duration OpData int TaskId
  | Call_SendCreateAccountRequest TaskId AccountCreation
  | Call_SendRemoveAccountRequest AccountRemoval
  | Call_SendRegisterPmidRequest TaskId PmidRegistration
  | Call_SendUnregisterPmidRequest Name
  | Call_SendPmidHealthRequest TaskId Name
  | Call_cout cout_line
  | Call_sleep_for nat

text \<open>
  The state: the routing layer the dispatcher sends through, the timer members of \<^verbatim>\<open>MaidNodeNfs\<close> by name, the hint, the promises
  allocated so far with their shared states, and the calls made so far on the timers, on
  the dispatcher and on the standard output, oldest first. \<^verbatim>\<open>NewTaskId\<close> is recorded
  with the identifier it returned. The dispatcher has no state of its own; a send is the
  recorded call.
\<close>

record MaidNodeNfs_state =
  routing :: Routing
  timers :: "timer_name \<Rightarrow> Timer"
  pmid_node_hint :: Name
  promises :: "promise_ref \<Rightarrow> shared_state"
  promise_count :: nat
  calls :: "call list"

definition record_call :: "call \<Rightarrow> MaidNodeNfs_state \<Rightarrow> MaidNodeNfs_state" where
  "record_call c s = s\<lparr>calls := calls s @ [c]\<rparr>"

definition Timer_NewTaskId :: "timer_name \<Rightarrow> MaidNodeNfs_state \<Rightarrow> TaskId \<times> MaidNodeNfs_state" where
  "Timer_NewTaskId t s =
     (let task_id = new_task_id (timers s t)
      in (task_id,
          record_call (Call_NewTaskId t task_id)
            (s\<lparr>timers := (timers s)(t := (timers s t)\<lparr>new_task_id := task_id + 1\<rparr>)\<rparr>)))"

definition Timer_AddTask ::
  "timer_name \<Rightarrow> duration \<Rightarrow> OpData \<Rightarrow> int \<Rightarrow> TaskId \<Rightarrow> MaidNodeNfs_state
     \<Rightarrow> (exception + unit) \<times> MaidNodeNfs_state" where
  "Timer_AddTask t timeout' op_data expected task_id s =
     (let s' = record_call (Call_AddTask t timeout' op_data expected task_id) s
      in case tasks (timers s t) task_id of
           Some task \<Rightarrow> (Inl DuplicateOperation, s')
         | None \<Rightarrow>
             (Inr (),
              s'\<lparr>timers := (timers s)(t := (timers s t)
                   \<lparr>tasks := (tasks (timers s t))
                       (task_id \<mapsto> \<lparr>timeout = timeout', functor = op_data,
                                      expected_response_count = expected\<rparr>)\<rparr>)\<rparr>))"

text \<open>
  A member function \<^verbatim>\<open>dispatcher_.Send...Request(...)\<close>; \<open>request\<close> is the call with
  its arguments.
\<close>

definition dispatcher_Send :: "call \<Rightarrow> MaidNodeNfs_state \<Rightarrow> (exception + unit) \<times> MaidNodeNfs_state" where
  "dispatcher_Send request s =
     (if accepts (routing s) then Inr () else Inl TransportUnavailable, record_call request s)"

text \<open>\<^verbatim>\<open>std::make_shared<boost::promise<...>>()\<close>\<close>

definition make_promise :: "MaidNodeNfs_state \<Rightarrow> promise_ref \<times> MaidNodeNfs_state" where
  "make_promise s =
     (promise_count s,
      s\<lparr>promises := (promises s)(promise_count s := unresolved),
        promise_count := promise_count s + 1\<rparr>)"

subsection \<open>The later revision\<close>

text \<open>
  The constructor builds every timer on the \<^verbatim>\<open>asio_service\<close>, the dispatcher on
  \<^verbatim>\<open>routing\<close>, and stores the hint. A
  new timer has no pending entry and its counter starts at 0; no promise exists yet and no
  call has been made. The constructor of the first revision differs in the number of
  timers only.
\<close>

definition MaidNodeNfs :: "Routing \<Rightarrow> Name \<Rightarrow> MaidNodeNfs_state" where
  "MaidNodeNfs routing' pmid_node_hint' =
     \<lparr>routing = routing',
      timers = (\<lambda>t. \<lparr>new_task_id = 0, tasks = Map.empty\<rparr>),
      pmid_node_hint = pmid_node_hint',
      promises = (\<lambda>p. unresolved),
      promise_count = 0,
      calls = []\<rparr>"

definition MaidNodeNfs_pmid_node_hint :: "MaidNodeNfs_state \<Rightarrow> Name" where
  "MaidNodeNfs_pmid_node_hint s = pmid_node_hint s"

definition MaidNodeNfs_set_pmid_node_hint :: "Name \<Rightarrow> MaidNodeNfs_state \<Rightarrow> MaidNodeNfs_state" where
  "MaidNodeNfs_set_pmid_node_hint pmid_node_hint' s = s\<lparr>pmid_node_hint := pmid_node_hint'\<rparr>"

text \<open>
  \<^verbatim>\<open>routing::Parameters::group_size\<close> is declared elsewhere; it is the parameter
  \<open>group_size\<close>, an \<^verbatim>\<open>int\<close> once promoted in \<^verbatim>\<open>group_size - 1\<close> and
  \<^verbatim>\<open>group_size * 2\<close>. Each operation returns what the call returns (\<open>Inl\<close> for an
  exception that leaves it) and the state it leaves behind. No operation has a
  \<^verbatim>\<open>try\<close> block: an exception of \<^verbatim>\<open>AddTask\<close> or of the send ends the call at that
  statement.
\<close>

definition MaidNodeNfs_CreateAccount ::
  "int \<Rightarrow> AccountCreation \<Rightarrow> duration \<Rightarrow> MaidNodeNfs_state
     \<Rightarrow> (exception + promise_ref) \<times> MaidNodeNfs_state" where
  "MaidNodeNfs_CreateAccount group_size account_creation timeout' s =
     (let (promise, s1) = make_promise s;
          response_functor = HandleCreateAccountResult promise;
          op_data = \<lparr>successes_required = group_size - 1, callback = response_functor\<rparr>;
          (task_id, s2) = Timer_NewTaskId create_account_timer s1
      in case Timer_AddTask create_account_timer timeout' op_data (group_size * 2) task_id s2 of
           (Inl e, s3) \<Rightarrow> (Inl e, s3)
         | (Inr u, s3) \<Rightarrow>
             (case dispatcher_Send (Call_SendCreateAccountRequest task_id account_creation) s3 of
                (Inl e, s4) \<Rightarrow> (Inl e, s4)
              | (Inr u', s4) \<Rightarrow> (Inr promise, s4)))"

definition MaidNodeNfs_RemoveAccount ::
  "AccountRemoval \<Rightarrow> MaidNodeNfs_state \<Rightarrow> (exception + unit) \<times> MaidNodeNfs_state" where
  "MaidNodeNfs_RemoveAccount account_removal s =
     dispatcher_Send (Call_SendRemoveAccountRequest account_removal) s"

definition MaidNodeNfs_RegisterPmid ::
  "int \<Rightarrow> PmidRegistration \<Rightarrow> duration \<Rightarrow> MaidNodeNfs_state
     \<Rightarrow> (exception + promise_ref) \<times> MaidNodeNfs_state" where
  "MaidNodeNfs_RegisterPmid group_size pmid_registration timeout' s =
     (let (promise, s1) = make_promise s;
          response_functor = HandleRegisterPmidResult promise;
          op_data = \<lparr>successes_required = group_size - 1, callback = response_functor\<rparr>;
          (task_id, s2) = Timer_NewTaskId create_account_timer s1
      in case Timer_AddTask register_pmid_timer timeout' op_data (group_size - 1) task_id s2 of
           (Inl e, s3) \<Rightarrow> (Inl e, s3)
         | (Inr u, s3) \<Rightarrow>
             (case dispatcher_Send (Call_SendRegisterPmidRequest task_id pmid_registration) s3 of
                (Inl e, s4) \<Rightarrow> (Inl e, s4)
              | (Inr u', s4) \<Rightarrow> (Inr promise, s4)))"

definition MaidNodeNfs_UnregisterPmid ::
  "Name \<Rightarrow> MaidNodeNfs_state \<Rightarrow> (exception + unit) \<times> MaidNodeNfs_state" where
  "MaidNodeNfs_UnregisterPmid pmid_name s =
     dispatcher_Send (Call_SendUnregisterPmidRequest pmid_name) s"

definition MaidNodeNfs_GetPmidHealth ::
  "int \<Rightarrow> Name \<Rightarrow> duration \<Rightarrow> MaidNodeNfs_state
     \<Rightarrow> (exception + promise_ref) \<times> MaidNodeNfs_state" where
  "MaidNodeNfs_GetPmidHealth group_size pmid_name timeout' s =
     (let (promise, s1) = make_promise s;
          response_functor = HandlePmidHealthResult promise;
          op_data = \<lparr>successes_required = group_size - 1, callback = response_functor\<rparr>;
          (task_id, s2) = Timer_NewTaskId pmid_health_timer s1
      in case Timer_AddTask pmid_health_timer timeout' op_data (group_size - 1) task_id s2 of
           (Inl e, s3) \<Rightarrow> (Inl e, s3)
         | (Inr u, s3) \<Rightarrow>
             (case dispatcher_Send (Call_SendPmidHealthRequest task_id pmid_name) s3 of
                (Inl e, s4) \<Rightarrow> (Inl e, s4)
              | (Inr u', s4) \<Rightarrow> (Inr promise, s4)))"

subsection \<open>The free function CreateAccount\<close>

text \<open>
  While the caller waits on the future, the other threads run: \<open>others\<close> is what they
  do to the state within the ten seconds of \<^verbatim>\<open>wait_for\<close>. The timeout of the inner
  call is a default argument declared in the header, the parameter \<open>default_timeout\<close>.
  \<^verbatim>\<open>maid\<close> and \<^verbatim>\<open>anmaid\<close> stand for the public keys made from them.
\<close>

datatype future_status = timeout_status | ready

definition wait_for :: "(MaidNodeNfs_state \<Rightarrow> MaidNodeNfs_state) \<Rightarrow> promise_ref \<Rightarrow> MaidNodeNfs_state
    \<Rightarrow> future_status \<times> MaidNodeNfs_state" where
  "wait_for others future s =
     (let s' = others s
      in (if promises s' future = unresolved then timeout_status else ready, s'))"

definition CreateAccount ::
  "int \<Rightarrow> duration \<Rightarrow> (MaidNodeNfs_state \<Rightarrow> MaidNodeNfs_state) \<Rightarrow> string \<Rightarrow> string
     \<Rightarrow> MaidNodeNfs_state \<Rightarrow> (exception + unit) \<times> MaidNodeNfs_state" where
  "CreateAccount group_size default_timeout others maid anmaid client_nfs =
     (case MaidNodeNfs_CreateAccount group_size
             \<lparr>public_maid = maid, public_anmaid = anmaid\<rparr> default_timeout client_nfs of
        (Inl e, s1) \<Rightarrow> (Inl e, s1)
      | (Inr future, s1) \<Rightarrow>
          (let (status, s2) = wait_for others future s1
           in if status = timeout_status
              then (Inl (maidsafe_error VaultErrors_failed_to_handle_request),
                    record_call (Call_cout cant_create_account) s2)
              else (case promises s2 future of
                      has_exception e \<Rightarrow>
                        (case e of
                           maidsafe_error c \<Rightarrow>
                             (Inr (),
                              if c = VaultErrors_account_already_exists
                                 \<or> c = VaultErrors_unique_data_clash
                              then record_call (Call_cout account_already_existed) s2
                              else s2)
                         | _ \<Rightarrow>
                             (Inr (), record_call (Call_cout caught_an_unknown_exception) s2))
                    | _ \<Rightarrow>
                        (Inr (),
                         record_call (Call_cout (Account_created_for_maid maid))
                           (record_call (Call_sleep_for 5) s2)))))"

subsection \<open>The first revision\<close>

text \<open>
  \<^verbatim>\<open>assert(0)\<close> aborts the process unless the file is compiled with \<^verbatim>\<open>NDEBUG\<close>, in
  which case it is empty and the function returns. \<open>ndebug\<close> says which. In this
  revision the group size is \<^verbatim>\<open>routing::Parameters::node_group_size\<close>.
\<close>

definition assert_0 :: "bool \<Rightarrow> MaidNodeNfs_state \<Rightarrow> (exception + unit) \<times> MaidNodeNfs_state" where
  "assert_0 ndebug s = (if ndebug then (Inr (), s) else (Inl assertion_failure, s))"

definition MaidNodeNfs_CreateAccount_rev1 ::
  "int \<Rightarrow> AccountCreation \<Rightarrow> duration \<Rightarrow> MaidNodeNfs_state
     \<Rightarrow> (exception + promise_ref) \<times> MaidNodeNfs_state" where
  "MaidNodeNfs_CreateAccount_rev1 node_group_size account_creation timeout' s =
     (let (promise, s1) = make_promise s;
          response_functor = HandleCreateAccountResult promise;
          op_data = \<lparr>successes_required = node_group_size - 1, callback = response_functor\<rparr>;
          (task_id, s2) = Timer_NewTaskId get_timer s1
      in case Timer_AddTask create_account_timer timeout' op_data (node_group_size * 2) task_id s2 of
           (Inl e, s3) \<Rightarrow> (Inl e, s3)
         | (Inr u, s3) \<Rightarrow>
             (case dispatcher_Send (Call_SendCreateAccountRequest task_id account_creation) s3 of
                (Inl e, s4) \<Rightarrow> (Inl e, s4)
              | (Inr u', s4) \<Rightarrow> (Inr promise, s4)))"

definition MaidNodeNfs_RemoveAccount_rev1 ::
  "bool \<Rightarrow> MaidNodeNfs_state \<Rightarrow> (exception + unit) \<times> MaidNodeNfs_state" where
  "MaidNodeNfs_RemoveAccount_rev1 ndebug s = assert_0 ndebug s"

definition MaidNodeNfs_RegisterPmid_rev1 ::
  "bool \<Rightarrow> PmidRegistration \<Rightarrow> MaidNodeNfs_state \<Rightarrow> (exception + unit) \<times> MaidNodeNfs_state" where
  "MaidNodeNfs_RegisterPmid_rev1 ndebug pmid_registration s = assert_0 ndebug s"

definition MaidNodeNfs_UnregisterPmid_rev1 ::
  "bool \<Rightarrow> PmidRegistration \<Rightarrow> MaidNodeNfs_state \<Rightarrow> (exception + unit) \<times> MaidNodeNfs_state" where
  "MaidNodeNfs_UnregisterPmid_rev1 ndebug pmid_registration s = assert_0 ndebug s"

definition MaidNodeNfs_GetPmidHealth_rev1 ::
  "bool \<Rightarrow> string \<Rightarrow> MaidNodeNfs_state \<Rightarrow> (exception + unit) \<times> MaidNodeNfs_state" where
  "MaidNodeNfs_GetPmidHealth_rev1 ndebug pmid s = assert_0 ndebug s"

subsection \<open>What the other threads do\<close>

text \<open>
  Modelled from the spec: the paths that resolve a promise and that remove a pending
  entry (\<^verbatim>\<open>HandleCreateAccountResult\<close> and its siblings, the delivery and the expiry
  of \<^verbatim>\<open>routing::Timer\<close>) are not among the sources. Following sections 3 and 4.2 of
  the specification, a promise is resolved or rejected, and an entry leaves its table
  through resolution or expiry only. The routing layer starts and stops accepting sends
  on its own.
\<close>

definition set_exception :: "promise_ref \<Rightarrow> exception \<Rightarrow> MaidNodeNfs_state \<Rightarrow> MaidNodeNfs_state" where
  "set_exception p e s = s\<lparr>promises := (promises s)(p := has_exception e)\<rparr>"

definition set_value :: "promise_ref \<Rightarrow> MaidNodeNfs_state \<Rightarrow> MaidNodeNfs_state" where
  "set_value p s = s\<lparr>promises := (promises s)(p := has_value)\<rparr>"

definition routing_changes :: "Routing \<Rightarrow> MaidNodeNfs_state \<Rightarrow> MaidNodeNfs_state" where
  "routing_changes r s = s\<lparr>routing := r\<rparr>"

definition Timer_remove_task :: "timer_name \<Rightarrow> TaskId \<Rightarrow> MaidNodeNfs_state \<Rightarrow> MaidNodeNfs_state" where
  "Timer_remove_task t task_id s =
     s\<lparr>timers := (timers s)(t := (timers s t)\<lparr>tasks := (tasks (timers s t))(task_id := None)\<rparr>)\<rparr>"

subsection \<open>Observations on the calls of one operation\<close>

fun is_send :: "call \<Rightarrow> bool" where
  "is_send (Call_SendCreateAccountRequest _ _) = True"
| "is_send (Call_SendRemoveAccountRequest _) = True"
| "is_send (Call_SendRegisterPmidRequest _ _) = True"
| "is_send (Call_SendUnregisterPmidRequest _) = True"
| "is_send (Call_SendPmidHealthRequest _ _) = True"
| "is_send _ = False"

fun is_NewTaskId :: "call \<Rightarrow> bool" where
  "is_NewTaskId (Call_NewTaskId _ _) = True"
| "is_NewTaskId _ = False"

fun is_AddTask :: "call \<Rightarrow> bool" where
  "is_AddTask (Call_AddTask _ _ _ _ _) = True"
| "is_AddTask _ = False"

text \<open>The calls made between the state \<open>s\<close> and the later state \<open>s'\<close>.\<close>

definition new_calls :: "MaidNodeNfs_state \<Rightarrow> MaidNodeNfs_state \<Rightarrow> call list" where
  "new_calls s s' = drop (length (calls s)) (calls s')"

text \<open>
  Every identifier pending in a timer was issued before by the allocator the facade
  takes that timer's identifiers from.
\<close>

definition ids_fresh :: "MaidNodeNfs_state \<Rightarrow> bool" where
  "ids_fresh s \<longleftrightarrow>
     (\<forall>task_id \<in> dom (tasks (timers s create_account_timer)).
        task_id < new_task_id (timers s create_account_timer))
   \<and> (\<forall>task_id \<in> dom (tasks (timers s register_pmid_timer)).
        task_id < new_task_id (timers s create_account_timer))
   \<and> (\<forall>task_id \<in> dom (tasks (timers s pmid_health_timer)).
        task_id < new_task_id (timers s pmid_health_timer))"

text \<open>
  The states a facade of the later revision goes through: it is constructed, its
  operations are called, and meanwhile the other threads resolve promises and remove
  pending entries.
\<close>

inductive reachable :: "MaidNodeNfs_state \<Rightarrow> bool" where
  constructed: "reachable (MaidNodeNfs r h)"
| after_set_pmid_node_hint: "reachable s \<Longrightarrow> reachable (MaidNodeNfs_set_pmid_node_hint h s)"
| after_CreateAccount:
    "reachable s \<Longrightarrow> reachable (snd (MaidNodeNfs_CreateAccount group_size account_creation t s))"
| after_RemoveAccount:
    "reachable s \<Longrightarrow> reachable (snd (MaidNodeNfs_RemoveAccount account_removal s))"
| after_RegisterPmid:
    "reachable s \<Longrightarrow> reachable (snd (MaidNodeNfs_RegisterPmid group_size pmid_registration t s))"
| after_UnregisterPmid:
    "reachable s \<Longrightarrow> reachable (snd (MaidNodeNfs_UnregisterPmid pmid_name s))"
| after_GetPmidHealth:
    "reachable s \<Longrightarrow> reachable (snd (MaidNodeNfs_GetPmidHealth group_size pmid_name t s))"
| after_set_exception: "reachable s \<Longrightarrow> reachable (set_exception p e s)"
| after_set_value: "reachable s \<Longrightarrow> reachable (set_value p s)"
| after_remove_task: "reachable s \<Longrightarrow> reachable (Timer_remove_task timer task_id s)"
| after_routing_changes: "reachable s \<Longrightarrow> reachable (routing_changes r s)"

section \<open>Properties of the delete-response handler\<close>

subsection \<open>The counters\<close>

lemma loop_body_counts:
  "success_count (loop_body parse success fr m) =
     success_count fr + (if decodes_to_success parse success m then 1 else 0)"
  "failure_count (loop_body parse success fr m) =
     failure_count fr + (if decodes_to_success parse success m then 0 else 1)"
  "original_data_message (loop_body parse success fr m) = original_data_message fr"
  by (simp_all add: loop_body_def try_block_def catch_block_def decodes_to_success_def emit_def
      split: sum.splits)

lemma loop_body_on_error:
  "filter is_on_error (effects (loop_body parse success fr m)) = filter is_on_error (effects fr)"
  by (simp add: loop_body_def try_block_def catch_block_def emit_def split: sum.splits)

lemma for_each_counts:
  "success_count (for_each parse success fr ms) =
     success_count fr + int (length (filter (decodes_to_success parse success) ms))"
  "failure_count (for_each parse success fr ms) =
     failure_count fr + int (length (filter (\<lambda>m. \<not> decodes_to_success parse success m) ms))"
  "original_data_message (for_each parse success fr ms) = original_data_message fr"
  by (induction ms arbitrary: fr) (simp_all add: loop_body_counts)

lemma for_each_on_error:
  "filter is_on_error (effects (for_each parse success fr ms)) = filter is_on_error (effects fr)"
  by (induction ms arbitrary: fr) (simp_all add: loop_body_on_error)

lemma for_each_append:
  "for_each parse success fr (xs @ ys) = for_each parse success (for_each parse success fr xs) ys"
  by (induction xs arbitrary: fr) simp_all

text \<open>
  The counters are \<^verbatim>\<open>int\<close> in the source. They never leave the range from 0 to the
  number of replies, so they stay within a 32-bit \<^verbatim>\<open>int\<close> for every vector of at
  most \<open>2\<^sup>3\<^sup>1 - 1\<close> replies and the unbounded integers of the model agree with them.
\<close>

lemma HandleDeleteResponse_counts:
  "success_count (snd (HandleDeleteResponse parse success on_error message ms)) =
     int (length (filter (decodes_to_success parse success) ms))"
  "failure_count (snd (HandleDeleteResponse parse success on_error message ms)) =
     int (length (filter (\<lambda>m. \<not> decodes_to_success parse success m) ms))"
  by (simp_all add: HandleDeleteResponse_def Let_def emit_def call_on_error_def for_each_counts
      split: option.splits)

lemma HandleDeleteResponse_counts_in_range:
  "0 \<le> success_count (snd (HandleDeleteResponse parse success on_error message ms))"
  "0 \<le> failure_count (snd (HandleDeleteResponse parse success on_error message ms))"
  "success_count (snd (HandleDeleteResponse parse success on_error message ms))
     + failure_count (snd (HandleDeleteResponse parse success on_error message ms)) =
   int (length ms)"
proof -
  show "0 \<le> success_count (snd (HandleDeleteResponse parse success on_error message ms))"
    by (simp add: HandleDeleteResponse_counts)
  show "0 \<le> failure_count (snd (HandleDeleteResponse parse success on_error message ms))"
    by (simp add: HandleDeleteResponse_counts)
  have "length (filter (decodes_to_success parse success) ms)
          + length (filter (\<lambda>m. \<not> decodes_to_success parse success m) ms) = length ms"
    by (rule sum_length_filter_compl)
  then show "success_count (snd (HandleDeleteResponse parse success on_error message ms))
     + failure_count (snd (HandleDeleteResponse parse success on_error message ms)) =
   int (length ms)"
    by (simp add: HandleDeleteResponse_counts flip: of_nat_add)
qed

subsection \<open>The calls of the functor and the result\<close>

lemma on_error_calls_eq:
  "on_error_calls (snd (HandleDeleteResponse parse success on_error message ms)) =
     (if ms = [] then (if on_error (intact message) = None then 2 else 1)
      else if filter (decodes_to_success parse success) ms = [] then 1 else 0)"
  by (simp add: on_error_calls_def HandleDeleteResponse_def Let_def emit_def call_on_error_def
      for_each_counts for_each_on_error split: option.splits)

text \<open>
  What the call does to its caller: it returns unless the functor throws, at line 73
  on the intact message, or at line 102 on the message as the frame then holds it.
\<close>

lemma HandleDeleteResponse_result:
  "fst (HandleDeleteResponse parse success on_error message ms) =
     (if ms = []
      then (case on_error (intact message) of
              Some x \<Rightarrow> Inl x
            | None \<Rightarrow> (case on_error moved_from of Some x \<Rightarrow> Inl x | None \<Rightarrow> Inr ()))
      else if filter (decodes_to_success parse success) ms = []
      then (case on_error (intact message) of Some x \<Rightarrow> Inl x | None \<Rightarrow> Inr ())
      else Inr ())"
  by (simp add: HandleDeleteResponse_def Let_def emit_def call_on_error_def
      for_each_counts split: option.splits)

text \<open>
  A call that returns has reached the last statement of the function, the verbose log
  line: it is its last effect.
\<close>

lemma HandleDeleteResponse_last_effect:
  "fst (HandleDeleteResponse parse success on_error message ms) = Inr () \<Longrightarrow>
   last (effects (snd (HandleDeleteResponse parse success on_error message ms))) =
     LogVerbose_overall_success
       (success_count (snd (HandleDeleteResponse parse success on_error message ms)))
       (failure_count (snd (HandleDeleteResponse parse success on_error message ms)))"
  by (simp add: HandleDeleteResponse_def Let_def emit_def call_on_error_def
      split: option.splits if_splits)

subsection \<open>Claims about the delete-response handler\<close>

text \<open>
  Claim C1: a single call invokes \<^verbatim>\<open>on_error_functor\<close> at most once. The code does not
  return after the call of line 73, so for the empty vector and a functor that returns
  the loop is skipped, \<^verbatim>\<open>success_count\<close> is still 0 and line 102 calls the functor a
  second time, with the moved-from message. The evaluation below is the trace of that
  call.
\<close>

theorem HandleDeleteResponse_empty_calls_on_error_twice:
  "effects (snd (HandleDeleteResponse sample_parse 0 returning_functor ''del'' [])) =
     [LogError_no_responses, on_error_functor (intact ''del''),
      LogError_no_successful 0, on_error_functor moved_from,
      LogVerbose_overall_success 0 0]
   \<and> on_error_calls (snd (HandleDeleteResponse sample_parse 0 returning_functor ''del'' [])) = 2
   \<and> fst (HandleDeleteResponse sample_parse 0 returning_functor ''del'' []) = Inr ()"
  by (simp add: HandleDeleteResponse_def Let_def emit_def call_on_error_def on_error_calls_def
      returning_functor_def)

text \<open>
  Claim C2: the call signals failure (invokes \<^verbatim>\<open>on_error_functor\<close>) if and only if no
  message of the list decodes to a success return code; the empty list signals failure;
  a list with at least one decodable success never invokes the functor, returns, and
  ends with the overall-success log line. This holds whatever the functor does.
\<close>

theorem HandleDeleteResponse_failure_iff_no_success:
  "(signals_failure (snd (HandleDeleteResponse parse success on_error message ms)) \<longleftrightarrow>
      (\<forall>m \<in> set ms. \<not> decodes_to_success parse success m))
   \<and> signals_failure (snd (HandleDeleteResponse parse success on_error message []))
   \<and> ((\<exists>m \<in> set ms. decodes_to_success parse success m) \<longrightarrow>
        on_error_calls (snd (HandleDeleteResponse parse success on_error message ms)) = 0
        \<and> 0 < success_count (snd (HandleDeleteResponse parse success on_error message ms))
        \<and> fst (HandleDeleteResponse parse success on_error message ms) = Inr ()
        \<and> last (effects (snd (HandleDeleteResponse parse success on_error message ms))) =
            LogVerbose_overall_success
              (success_count (snd (HandleDeleteResponse parse success on_error message ms)))
              (failure_count (snd (HandleDeleteResponse parse success on_error message ms))))"
proof -
  let ?H = "HandleDeleteResponse parse success on_error message"
  have none: "filter (decodes_to_success parse success) ms = [] \<longleftrightarrow>
      (\<forall>m \<in> set ms. \<not> decodes_to_success parse success m)"
    by (simp add: filter_empty_conv)
  have iff: "signals_failure (snd (?H ms)) \<longleftrightarrow>
      (\<forall>m \<in> set ms. \<not> decodes_to_success parse success m)"
    unfolding signals_failure_def on_error_calls_eq using none by (cases ms) auto
  have empty: "signals_failure (snd (?H []))"
    by (simp add: signals_failure_def on_error_calls_eq)
  have some: "on_error_calls (snd (?H ms)) = 0 \<and> 0 < success_count (snd (?H ms))
        \<and> fst (?H ms) = Inr ()
        \<and> last (effects (snd (?H ms))) =
            LogVerbose_overall_success (success_count (snd (?H ms))) (failure_count (snd (?H ms)))"
    if "\<exists>m \<in> set ms. decodes_to_success parse success m"
  proof -
    from that none have ne: "filter (decodes_to_success parse success) ms \<noteq> []" by blast
    then have nonempty: "ms \<noteq> []" by auto
    from ne nonempty have r: "fst (?H ms) = Inr ()"
      by (simp add: HandleDeleteResponse_result)
    from ne nonempty have c: "on_error_calls (snd (?H ms)) = 0 \<and> 0 < success_count (snd (?H ms))"
      by (simp add: on_error_calls_eq HandleDeleteResponse_counts)
    from c r HandleDeleteResponse_last_effect [OF r] show ?thesis by simp
  qed
  from iff empty some show ?thesis by simp
qed

theorem HandleDeleteResponse_failure_iff_no_success_witness:
  "(\<exists>m \<in> set [''bad'', ''ok'']. decodes_to_success sample_parse 0 m)
   \<and> \<not> signals_failure (snd (HandleDeleteResponse sample_parse 0 empty_functor ''del'' [''bad'', ''ok'']))
   \<and> on_error_calls (snd (HandleDeleteResponse sample_parse 0 empty_functor ''del'' [''bad'', ''ok''])) = 0
   \<and> fst (HandleDeleteResponse sample_parse 0 empty_functor ''del'' [''bad'', ''ok'']) = Inr ()
   \<and> \<not> decodes_to_success sample_parse 0 ''bad''
   \<and> \<not> decodes_to_success sample_parse 0 []
   \<and> signals_failure (snd (HandleDeleteResponse sample_parse 0 empty_functor ''del'' [''bad'', []]))"
proof -
  have a: "\<exists>m \<in> set [''bad'', ''ok'']. decodes_to_success sample_parse 0 m"
    by (simp add: decodes_to_success_def sample_parse_def)
  have c: "\<not> decodes_to_success sample_parse 0 ''bad''"
    "\<not> decodes_to_success sample_parse 0 []"
    by (simp_all add: decodes_to_success_def sample_parse_def)
  then have b: "\<forall>m \<in> set [''bad'', []]. \<not> decodes_to_success sample_parse 0 m"
    by simp
  from a b c
    HandleDeleteResponse_failure_iff_no_success
      [of sample_parse 0 empty_functor "''del''" "[''bad'', ''ok'']"]
    HandleDeleteResponse_failure_iff_no_success
      [of sample_parse 0 empty_functor "''del''" "[''bad'', []]"]
  show ?thesis by blast
qed

text \<open>
  Claim C3, as stated: the function never propagates an exception to its caller. The
  \<^verbatim>\<open>try\<close> block covers the construction of the return code only; the two calls of
  \<^verbatim>\<open>on_error_functor\<close> are outside it. With an empty functor and one reply whose
  construction throws, the reply is counted as a failure, no reply is a success, and the
  \<^verbatim>\<open>bad_function_call\<close> of line 102 leaves the function.
\<close>

theorem HandleDeleteResponse_functor_exception_propagates:
  "fst (HandleDeleteResponse sample_parse 0 empty_functor ''del'' [[]]) =
     Inl (std_exception ''bad_function_call'')
   \<and> throws sample_parse []
   \<and> failure_count (snd (HandleDeleteResponse sample_parse 0 empty_functor ''del'' [[]])) = 1
   \<and> success_count (snd (HandleDeleteResponse sample_parse 0 empty_functor ''del'' [[]])) = 0
   \<and> effects (snd (HandleDeleteResponse sample_parse 0 empty_functor ''del'' [[]])) =
       [LogError_what ''invalid string size'', LogError_no_successful 1,
        on_error_functor (intact ''del'')]"
  by (simp add: HandleDeleteResponse_def Let_def emit_def call_on_error_def empty_functor_def
      loop_body_def try_block_def catch_block_def sample_parse_def throws_def)

text \<open>
  Claim C3, amended: a message whose \<^verbatim>\<open>ReturnCode\<close> construction throws is counted as
  exactly one failure and no success, and the loop goes on with the remaining messages;
  no exception of a construction leaves the function. The call returns, having reached
  its last statement, whenever some message decodes to a success or the functor does not
  throw; the only exception that leaves the function is one thrown by
  \<^verbatim>\<open>on_error_functor\<close>.
\<close>

theorem HandleDeleteResponse_throwing_message_is_one_failure:
  "(try_block parse success fr m = Inl e \<longrightarrow>
      loop_body parse success fr m = catch_block fr e
      \<and> success_count (loop_body parse success fr m) = success_count fr
      \<and> failure_count (loop_body parse success fr m) = failure_count fr + 1)
   \<and> (throws parse m \<longleftrightarrow> (\<exists>e. try_block parse success fr m = Inl e))
   \<and> for_each parse success fr (xs @ m # ys) =
       for_each parse success (loop_body parse success (for_each parse success fr xs) m) ys
   \<and> success_count (snd (HandleDeleteResponse parse success on_error message ms)) =
       int (length (filter (decodes_to_success parse success) ms))
   \<and> failure_count (snd (HandleDeleteResponse parse success on_error message ms)) =
       int (length (filter (\<lambda>m. \<not> decodes_to_success parse success m) ms))
   \<and> (\<forall>m \<in> set ms. throws parse m \<longrightarrow> \<not> decodes_to_success parse success m)
   \<and> ((\<exists>m \<in> set ms. decodes_to_success parse success m) \<or> (\<forall>a. on_error a = None) \<longrightarrow>
        fst (HandleDeleteResponse parse success on_error message ms) = Inr ())
   \<and> (fst (HandleDeleteResponse parse success on_error message ms) = Inr () \<longrightarrow>
        last (effects (snd (HandleDeleteResponse parse success on_error message ms))) =
          LogVerbose_overall_success
            (success_count (snd (HandleDeleteResponse parse success on_error message ms)))
            (failure_count (snd (HandleDeleteResponse parse success on_error message ms))))
   \<and> (\<forall>x. fst (HandleDeleteResponse parse success on_error message ms) = Inl x \<longrightarrow>
        (\<forall>m \<in> set ms. \<not> decodes_to_success parse success m)
        \<and> (\<exists>a. on_error a = Some x))"
proof -
  let ?H = "HandleDeleteResponse parse success on_error message ms"
  have step: "try_block parse success fr m = Inl e \<longrightarrow>
      loop_body parse success fr m = catch_block fr e
      \<and> success_count (loop_body parse success fr m) = success_count fr
      \<and> failure_count (loop_body parse success fr m) = failure_count fr + 1"
    by (simp add: loop_body_def catch_block_def emit_def)
  have thr: "throws parse m \<longleftrightarrow> (\<exists>e. try_block parse success fr m = Inl e)"
    by (simp add: throws_def try_block_def split: sum.splits)
  have cont: "for_each parse success fr (xs @ m # ys) =
       for_each parse success (loop_body parse success (for_each parse success fr xs) m) ys"
    by (simp add: for_each_append)
  have excl: "\<forall>m \<in> set ms. throws parse m \<longrightarrow> \<not> decodes_to_success parse success m"
    by (simp add: throws_def decodes_to_success_def split: sum.splits)
  have none: "filter (decodes_to_success parse success) ms = [] \<longleftrightarrow>
      (\<forall>m \<in> set ms. \<not> decodes_to_success parse success m)"
    by (simp add: filter_empty_conv)
  have ret: "(\<exists>m \<in> set ms. decodes_to_success parse success m) \<or> (\<forall>a. on_error a = None) \<longrightarrow>
        fst ?H = Inr ()"
    using none by (auto simp add: HandleDeleteResponse_result)
  have lst: "fst ?H = Inr () \<longrightarrow>
        last (effects (snd ?H)) =
          LogVerbose_overall_success (success_count (snd ?H)) (failure_count (snd ?H))"
    by (rule impI) (rule HandleDeleteResponse_last_effect)
  have exc: "\<forall>x. fst ?H = Inl x \<longrightarrow>
        (\<forall>m \<in> set ms. \<not> decodes_to_success parse success m) \<and> (\<exists>a. on_error a = Some x)"
    using none
    by (auto simp add: HandleDeleteResponse_result split: if_splits option.splits)
  from step thr cont excl ret lst exc show ?thesis
    by (simp only: HandleDeleteResponse_counts simp_thms)
qed

theorem HandleDeleteResponse_throwing_message_is_one_failure_witness:
  "try_block sample_parse 0
       \<lparr>success_count = 1, failure_count = 0, original_data_message = intact ''del'',
        effects = []\<rparr> [] = Inl (std_exception ''invalid string size'')
   \<and> failure_count (loop_body sample_parse 0
       \<lparr>success_count = 1, failure_count = 0, original_data_message = intact ''del'',
        effects = []\<rparr> []) = 1
   \<and> success_count (loop_body sample_parse 0
       \<lparr>success_count = 1, failure_count = 0, original_data_message = intact ''del'',
        effects = []\<rparr> []) = 1
   \<and> throws sample_parse []
   \<and> success_count (snd (HandleDeleteResponse sample_parse 0 empty_functor ''del''
        [''ok'', [], ''bad''])) = 1
   \<and> failure_count (snd (HandleDeleteResponse sample_parse 0 empty_functor ''del''
        [''ok'', [], ''bad''])) = 2
   \<and> decodes_to_success sample_parse 0 ''ok''
   \<and> fst (HandleDeleteResponse sample_parse 0 empty_functor ''del'' [''ok'', [], ''bad'']) = Inr ()
   \<and> last (effects (snd (HandleDeleteResponse sample_parse 0 empty_functor ''del''
        [''ok'', [], ''bad'']))) = LogVerbose_overall_success 1 2
   \<and> fst (HandleDeleteResponse sample_parse 0 empty_functor ''del'' [[]]) =
       Inl (std_exception ''bad_function_call'')
   \<and> \<not> decodes_to_success sample_parse 0 []
   \<and> (\<exists>a. empty_functor a = Some (std_exception ''bad_function_call''))"
proof -
  let ?fr = "\<lparr>success_count = 1, failure_count = 0, original_data_message = intact ''del'',
              effects = []\<rparr> :: string frame"
  let ?ms = "[''ok'', [], ''bad'']"
  let ?H = "HandleDeleteResponse sample_parse 0 empty_functor ''del'' ?ms"
  have t: "try_block sample_parse 0 ?fr [] = Inl (std_exception ''invalid string size'')"
    by (simp add: try_block_def sample_parse_def)
  have ok: "decodes_to_success sample_parse 0 ''ok''"
    by (simp add: decodes_to_success_def sample_parse_def)
  then have ex: "\<exists>m \<in> set ?ms. decodes_to_success sample_parse 0 m"
    by simp
  have d: "filter (decodes_to_success sample_parse 0) ?ms = [''ok'']"
    "filter (\<lambda>m. \<not> decodes_to_success sample_parse 0 m) ?ms = [[], ''bad'']"
    by (simp_all add: decodes_to_success_def sample_parse_def)
  note th = HandleDeleteResponse_throwing_message_is_one_failure
      [of sample_parse 0 ?fr "[]" "std_exception ''invalid string size''" "[]" "[]"
          empty_functor "''del''" ?ms]
  from th t have step:
    "success_count (loop_body sample_parse 0 ?fr []) = success_count ?fr"
    "failure_count (loop_body sample_parse 0 ?fr []) = failure_count ?fr + 1"
    by blast+
  from th t have thr: "throws sample_parse []"
    by blast
  from th have counts:
    "success_count (snd ?H) = int (length (filter (decodes_to_success sample_parse 0) ?ms))"
    "failure_count (snd ?H) =
       int (length (filter (\<lambda>m. \<not> decodes_to_success sample_parse 0 m) ?ms))"
    by blast+
  from th ex have r: "fst ?H = Inr ()"
    by blast
  from th r have l: "last (effects (snd ?H)) =
      LogVerbose_overall_success (success_count (snd ?H)) (failure_count (snd ?H))"
    by blast
  from step have step': "success_count (loop_body sample_parse 0 ?fr []) = 1"
    "failure_count (loop_body sample_parse 0 ?fr []) = 1"
    by simp_all
  from counts have counts': "success_count (snd ?H) = 1" "failure_count (snd ?H) = 2"
    unfolding d by simp_all
  from l counts' have l': "last (effects (snd ?H)) = LogVerbose_overall_success 1 2"
    by simp
  have x: "fst (HandleDeleteResponse sample_parse 0 empty_functor ''del'' [[]]) =
      Inl (std_exception ''bad_function_call'')"
    by (simp add: HandleDeleteResponse_result decodes_to_success_def sample_parse_def
        empty_functor_def)
  note th' = HandleDeleteResponse_throwing_message_is_one_failure
      [of sample_parse 0 ?fr "[]" "std_exception ''invalid string size''" "[]" "[]"
          empty_functor "''del''" "[[]]"]
  from th' x have y: "\<not> decodes_to_success sample_parse 0 []"
    "\<exists>a. empty_functor a = Some (std_exception ''bad_function_call'')"
    by simp_all
  from t step' thr counts' ok r l' x y show ?thesis
    by (intro conjI)
qed

text \<open>
  Claim C4: for every permutation of the list of messages the verdict is the same: the
  same two counters, and the functor invoked for one order if and only if it is invoked
  for the other (indeed the same number of times, with the same outcome for the caller).
\<close>

theorem HandleDeleteResponse_order_independent:
  "mset xs = mset ys \<Longrightarrow>
     success_count (snd (HandleDeleteResponse parse success on_error message xs)) =
       success_count (snd (HandleDeleteResponse parse success on_error message ys))
     \<and> failure_count (snd (HandleDeleteResponse parse success on_error message xs)) =
       failure_count (snd (HandleDeleteResponse parse success on_error message ys))
     \<and> (signals_failure (snd (HandleDeleteResponse parse success on_error message xs)) \<longleftrightarrow>
        signals_failure (snd (HandleDeleteResponse parse success on_error message ys)))
     \<and> on_error_calls (snd (HandleDeleteResponse parse success on_error message xs)) =
       on_error_calls (snd (HandleDeleteResponse parse success on_error message ys))
     \<and> fst (HandleDeleteResponse parse success on_error message xs) =
       fst (HandleDeleteResponse parse success on_error message ys)"
proof -
  assume eq: "mset xs = mset ys"
  have len: "length (filter P xs) = length (filter P ys)" for P
  proof -
    have "mset (filter P xs) = mset (filter P ys)" using eq by simp
    then show ?thesis by (rule mset_eq_length)
  qed
  have nil: "xs = [] \<longleftrightarrow> ys = []" using eq by (metis mset_zero_iff)
  have fnil: "filter P xs = [] \<longleftrightarrow> filter P ys = []" for P
    using len [of P] by (metis length_0_conv)
  show ?thesis
    by (simp add: HandleDeleteResponse_counts signals_failure_def on_error_calls_eq
        HandleDeleteResponse_result len nil fnil)
qed

theorem HandleDeleteResponse_order_independent_witness:
  "mset [''ok'', ''bad'', []] = mset [[], ''ok'', ''bad'']
   \<and> success_count (snd (HandleDeleteResponse sample_parse 0 empty_functor ''del'' [''ok'', ''bad'', []])) =
       success_count (snd (HandleDeleteResponse sample_parse 0 empty_functor ''del'' [[], ''ok'', ''bad'']))
   \<and> failure_count (snd (HandleDeleteResponse sample_parse 0 empty_functor ''del'' [''ok'', ''bad'', []])) =
       failure_count (snd (HandleDeleteResponse sample_parse 0 empty_functor ''del'' [[], ''ok'', ''bad'']))
   \<and> (signals_failure (snd (HandleDeleteResponse sample_parse 0 empty_functor ''del'' [''ok'', ''bad'', []])) \<longleftrightarrow>
       signals_failure (snd (HandleDeleteResponse sample_parse 0 empty_functor ''del'' [[], ''ok'', ''bad''])))"
proof -
  have p: "mset [''ok'', ''bad'', []] = mset [[], ''ok'', ''bad'']"
    by simp
  from p HandleDeleteResponse_order_independent
      [OF p, of sample_parse 0 empty_functor "''del''"]
  show ?thesis by blast
qed

section \<open>Properties of the facade\<close>

lemmas facade_defs =
  MaidNodeNfs_CreateAccount_def MaidNodeNfs_RegisterPmid_def MaidNodeNfs_GetPmidHealth_def
  MaidNodeNfs_RemoveAccount_def MaidNodeNfs_UnregisterPmid_def dispatcher_Send_def
  make_promise_def Timer_NewTaskId_def Timer_AddTask_def record_call_def Let_def

lemma ids_fresh_None:
  assumes "ids_fresh s"
  shows "tasks (timers s create_account_timer) (new_task_id (timers s create_account_timer)) = None"
    and "tasks (timers s register_pmid_timer) (new_task_id (timers s create_account_timer)) = None"
    and "tasks (timers s pmid_health_timer) (new_task_id (timers s pmid_health_timer)) = None"
  using assms unfolding ids_fresh_def by (auto simp: dom_def)

lemma ids_fresh_MaidNodeNfs: "ids_fresh (MaidNodeNfs r h)"
  by (simp add: ids_fresh_def MaidNodeNfs_def)

text \<open>
  With fresh identifiers \<^verbatim>\<open>AddTask\<close> succeeds, and each of the three correlated
  operations gets as far as its send; the send decides between the future and the
  exception.
\<close>

lemma CreateAccount_result:
  assumes "ids_fresh s"
  shows "fst (MaidNodeNfs_CreateAccount gs ac t s) =
           (if accepts (routing s) then Inr (promise_count s) else Inl TransportUnavailable)"
    and "calls (snd (MaidNodeNfs_CreateAccount gs ac t s)) = calls s @
       [Call_NewTaskId create_account_timer (new_task_id (timers s create_account_timer)),
        Call_AddTask create_account_timer t
          \<lparr>successes_required = gs - 1, callback = HandleCreateAccountResult (promise_count s)\<rparr>
          (gs * 2) (new_task_id (timers s create_account_timer)),
        Call_SendCreateAccountRequest (new_task_id (timers s create_account_timer)) ac]"
    and "promises (snd (MaidNodeNfs_CreateAccount gs ac t s)) (promise_count s) = unresolved"
    and "tasks (timers (snd (MaidNodeNfs_CreateAccount gs ac t s)) create_account_timer)
           (new_task_id (timers s create_account_timer)) =
         Some \<lparr>timeout = t,
               functor = \<lparr>successes_required = gs - 1,
                          callback = HandleCreateAccountResult (promise_count s)\<rparr>,
               expected_response_count = gs * 2\<rparr>"
  using ids_fresh_None(1) [OF assms] by (simp_all add: facade_defs)

lemma RegisterPmid_result:
  assumes "ids_fresh s"
  shows "fst (MaidNodeNfs_RegisterPmid gs pr t s) =
           (if accepts (routing s) then Inr (promise_count s) else Inl TransportUnavailable)"
    and "calls (snd (MaidNodeNfs_RegisterPmid gs pr t s)) = calls s @
       [Call_NewTaskId create_account_timer (new_task_id (timers s create_account_timer)),
        Call_AddTask register_pmid_timer t
          \<lparr>successes_required = gs - 1, callback = HandleRegisterPmidResult (promise_count s)\<rparr>
          (gs - 1) (new_task_id (timers s create_account_timer)),
        Call_SendRegisterPmidRequest (new_task_id (timers s create_account_timer)) pr]"
    and "promises (snd (MaidNodeNfs_RegisterPmid gs pr t s)) (promise_count s) = unresolved"
    and "tasks (timers (snd (MaidNodeNfs_RegisterPmid gs pr t s)) register_pmid_timer)
           (new_task_id (timers s create_account_timer)) =
         Some \<lparr>timeout = t,
               functor = \<lparr>successes_required = gs - 1,
                          callback = HandleRegisterPmidResult (promise_count s)\<rparr>,
               expected_response_count = gs - 1\<rparr>"
  using ids_fresh_None(2) [OF assms] by (simp_all add: facade_defs)

lemma GetPmidHealth_result:
  assumes "ids_fresh s"
  shows "fst (MaidNodeNfs_GetPmidHealth gs pn t s) =
           (if accepts (routing s) then Inr (promise_count s) else Inl TransportUnavailable)"
    and "calls (snd (MaidNodeNfs_GetPmidHealth gs pn t s)) = calls s @
       [Call_NewTaskId pmid_health_timer (new_task_id (timers s pmid_health_timer)),
        Call_AddTask pmid_health_timer t
          \<lparr>successes_required = gs - 1, callback = HandlePmidHealthResult (promise_count s)\<rparr>
          (gs - 1) (new_task_id (timers s pmid_health_timer)),
        Call_SendPmidHealthRequest (new_task_id (timers s pmid_health_timer)) pn]"
    and "promises (snd (MaidNodeNfs_GetPmidHealth gs pn t s)) (promise_count s) = unresolved"
    and "tasks (timers (snd (MaidNodeNfs_GetPmidHealth gs pn t s)) pmid_health_timer)
           (new_task_id (timers s pmid_health_timer)) =
         Some \<lparr>timeout = t,
               functor = \<lparr>successes_required = gs - 1,
                          callback = HandlePmidHealthResult (promise_count s)\<rparr>,
               expected_response_count = gs - 1\<rparr>"
  using ids_fresh_None(3) [OF assms] by (simp_all add: facade_defs)

text \<open>
  A future that \<^verbatim>\<open>MaidNodeNfs::CreateAccount\<close> returns is the future of the promise
  the call made.
\<close>

lemma CreateAccount_returned_future:
  "fst (MaidNodeNfs_CreateAccount gs ac t s) = Inr future \<Longrightarrow> future = promise_count s"
  by (auto simp add: facade_defs split: option.splits if_splits)

text \<open>The operations keep the invariant, whether they return or throw.\<close>

lemma ids_fresh_CreateAccount:
  "ids_fresh s \<Longrightarrow> ids_fresh (snd (MaidNodeNfs_CreateAccount gs ac t s))"
  by (auto simp: ids_fresh_def facade_defs dom_def less_Suc_eq split: option.splits)

lemma ids_fresh_RegisterPmid:
  "ids_fresh s \<Longrightarrow> ids_fresh (snd (MaidNodeNfs_RegisterPmid gs pr t s))"
  by (auto simp: ids_fresh_def facade_defs dom_def less_Suc_eq split: option.splits)

lemma ids_fresh_GetPmidHealth:
  "ids_fresh s \<Longrightarrow> ids_fresh (snd (MaidNodeNfs_GetPmidHealth gs pn t s))"
  by (auto simp: ids_fresh_def facade_defs dom_def less_Suc_eq split: option.splits)

lemma ids_fresh_RemoveAccount:
  "ids_fresh s \<Longrightarrow> ids_fresh (snd (MaidNodeNfs_RemoveAccount ar s))"
  by (simp add: ids_fresh_def facade_defs)

lemma ids_fresh_UnregisterPmid:
  "ids_fresh s \<Longrightarrow> ids_fresh (snd (MaidNodeNfs_UnregisterPmid pn s))"
  by (simp add: ids_fresh_def facade_defs)

lemma ids_fresh_set_pmid_node_hint:
  "ids_fresh s \<Longrightarrow> ids_fresh (MaidNodeNfs_set_pmid_node_hint h s)"
  by (simp add: ids_fresh_def MaidNodeNfs_set_pmid_node_hint_def)

lemma ids_fresh_environment:
  "ids_fresh s \<Longrightarrow> ids_fresh (set_exception p e s)"
  "ids_fresh s \<Longrightarrow> ids_fresh (set_value p s)"
  "ids_fresh s \<Longrightarrow> ids_fresh (Timer_remove_task timer task_id s)"
  "ids_fresh s \<Longrightarrow> ids_fresh (routing_changes r s)"
  by (auto simp: ids_fresh_def set_exception_def set_value_def Timer_remove_task_def
      routing_changes_def dom_def)

text \<open>Hence every state of the later revision has the identifiers of its timers fresh.\<close>

lemma reachable_ids_fresh: "reachable s \<Longrightarrow> ids_fresh s"
proof (induction rule: reachable.induct)
  case (constructed r h)
  show ?case by (rule ids_fresh_MaidNodeNfs)
next
  case (after_set_pmid_node_hint s h)
  then show ?case by (simp add: ids_fresh_set_pmid_node_hint)
next
  case (after_CreateAccount s group_size account_creation t)
  then show ?case by (simp add: ids_fresh_CreateAccount)
next
  case (after_RemoveAccount s account_removal)
  then show ?case by (simp add: ids_fresh_RemoveAccount)
next
  case (after_RegisterPmid s group_size pmid_registration t)
  then show ?case by (simp add: ids_fresh_RegisterPmid)
next
  case (after_UnregisterPmid s pmid_name)
  then show ?case by (simp add: ids_fresh_UnregisterPmid)
next
  case (after_GetPmidHealth s group_size pmid_name t)
  then show ?case by (simp add: ids_fresh_GetPmidHealth)
next
  case (after_set_exception s p e)
  then show ?case by (simp add: ids_fresh_environment)
next
  case (after_set_value s p)
  then show ?case by (simp add: ids_fresh_environment)
next
  case (after_remove_task s timer task_id)
  then show ?case by (simp add: ids_fresh_environment)
next
  case (after_routing_changes s r)
  then show ?case by (simp add: ids_fresh_environment)
qed

subsection \<open>Claims about the facade\<close>

text \<open>
  Claim C5, as stated: every call of \<^verbatim>\<open>RemoveAccount\<close> and of \<^verbatim>\<open>UnregisterPmid\<close>
  performs exactly one dispatcher send and returns. In the first revision both functions
  are \<^verbatim>\<open>assert(0)\<close>: a call sends nothing, with or without \<^verbatim>\<open>NDEBUG\<close>. In the later
  revision the send is not in a \<^verbatim>\<open>try\<close> block: when the routing layer does not accept
  it, the call throws instead of returning.
\<close>

theorem fire_and_forget_rev1_sends_nothing:
  "length (filter is_send
      (new_calls (MaidNodeNfs (Routing True) ''hint'')
         (snd (MaidNodeNfs_RemoveAccount_rev1 True (MaidNodeNfs (Routing True) ''hint''))))) = 0
   \<and> length (filter is_send
      (new_calls (MaidNodeNfs (Routing True) ''hint'')
         (snd (MaidNodeNfs_RemoveAccount_rev1 False (MaidNodeNfs (Routing True) ''hint''))))) = 0
   \<and> fst (MaidNodeNfs_RemoveAccount_rev1 False (MaidNodeNfs (Routing True) ''hint'')) =
       Inl assertion_failure
   \<and> length (filter is_send
      (new_calls (MaidNodeNfs (Routing True) ''hint'')
         (snd (MaidNodeNfs_UnregisterPmid_rev1 True ''reg''
            (MaidNodeNfs (Routing True) ''hint''))))) = 0
   \<and> fst (MaidNodeNfs_RemoveAccount ''acc'' (MaidNodeNfs (Routing False) ''hint'')) =
       Inl TransportUnavailable
   \<and> fst (MaidNodeNfs_UnregisterPmid ''pmid'' (MaidNodeNfs (Routing False) ''hint'')) =
       Inl TransportUnavailable"
  by (simp add: MaidNodeNfs_RemoveAccount_rev1_def MaidNodeNfs_UnregisterPmid_rev1_def
      assert_0_def new_calls_def MaidNodeNfs_RemoveAccount_def MaidNodeNfs_UnregisterPmid_def
      dispatcher_Send_def MaidNodeNfs_def)

text \<open>
  Claim C5, amended: in the later revision every call of \<^verbatim>\<open>RemoveAccount\<close> and of
  \<^verbatim>\<open>UnregisterPmid\<close> performs exactly one dispatcher send, allocates no task
  identifier, adds no timer task, creates no promise and awaits no response; it returns
  \<^verbatim>\<open>void\<close> when the routing layer accepts the send, and otherwise the
  \<open>TransportUnavailable\<close> of the send leaves the call. In the first revision the two
  operations are unimplemented and leave the state as it is.
\<close>

theorem fire_and_forget_operations:
  "MaidNodeNfs_RemoveAccount account_removal s =
     (if accepts (routing s) then Inr () else Inl TransportUnavailable,
      s\<lparr>calls := calls s @ [Call_SendRemoveAccountRequest account_removal]\<rparr>)
   \<and> MaidNodeNfs_UnregisterPmid pmid_name s =
     (if accepts (routing s) then Inr () else Inl TransportUnavailable,
      s\<lparr>calls := calls s @ [Call_SendUnregisterPmidRequest pmid_name]\<rparr>)
   \<and> length (filter is_send (new_calls s (snd (MaidNodeNfs_RemoveAccount account_removal s)))) = 1
   \<and> filter is_NewTaskId (new_calls s (snd (MaidNodeNfs_RemoveAccount account_removal s))) = []
   \<and> filter is_AddTask (new_calls s (snd (MaidNodeNfs_RemoveAccount account_removal s))) = []
   \<and> timers (snd (MaidNodeNfs_RemoveAccount account_removal s)) = timers s
   \<and> promise_count (snd (MaidNodeNfs_RemoveAccount account_removal s)) = promise_count s
   \<and> length (filter is_send (new_calls s (snd (MaidNodeNfs_UnregisterPmid pmid_name s)))) = 1
   \<and> filter is_NewTaskId (new_calls s (snd (MaidNodeNfs_UnregisterPmid pmid_name s))) = []
   \<and> filter is_AddTask (new_calls s (snd (MaidNodeNfs_UnregisterPmid pmid_name s))) = []
   \<and> timers (snd (MaidNodeNfs_UnregisterPmid pmid_name s)) = timers s
   \<and> promise_count (snd (MaidNodeNfs_UnregisterPmid pmid_name s)) = promise_count s
   \<and> snd (MaidNodeNfs_RemoveAccount_rev1 ndebug s) = s
   \<and> snd (MaidNodeNfs_UnregisterPmid_rev1 ndebug pmid_registration s) = s"
  by (simp add: MaidNodeNfs_RemoveAccount_def MaidNodeNfs_UnregisterPmid_def dispatcher_Send_def
      record_call_def new_calls_def MaidNodeNfs_RemoveAccount_rev1_def
      MaidNodeNfs_UnregisterPmid_rev1_def assert_0_def)

text \<open>
  Claim C6, as stated: every call of \<^verbatim>\<open>CreateAccount\<close>, \<^verbatim>\<open>RegisterPmid\<close> or
  \<^verbatim>\<open>GetPmidHealth\<close> returns the future. The send comes before
  \<^verbatim>\<open>return promise->get_future()\<close> and is not in a \<^verbatim>\<open>try\<close> block: on a new facade
  whose routing layer does not accept the send, each of the three calls allocates,
  registers, attempts the send and then throws \<open>TransportUnavailable\<close>; no future is
  returned.
\<close>

theorem correlated_operations_send_fails:
  "fst (MaidNodeNfs_CreateAccount 4 \<lparr>public_maid = ''m'', public_anmaid = ''a''\<rparr> 30
         (MaidNodeNfs (Routing False) ''hint'')) = Inl TransportUnavailable
   \<and> fst (MaidNodeNfs_RegisterPmid 4 ''reg'' 30 (MaidNodeNfs (Routing False) ''hint'')) =
       Inl TransportUnavailable
   \<and> fst (MaidNodeNfs_GetPmidHealth 4 ''pmid'' 30 (MaidNodeNfs (Routing False) ''hint'')) =
       Inl TransportUnavailable
   \<and> calls (snd (MaidNodeNfs_CreateAccount 4 \<lparr>public_maid = ''m'', public_anmaid = ''a''\<rparr> 30
         (MaidNodeNfs (Routing False) ''hint''))) =
       [Call_NewTaskId create_account_timer 0,
        Call_AddTask create_account_timer 30
          \<lparr>successes_required = 3, callback = HandleCreateAccountResult 0\<rparr> 8 0,
        Call_SendCreateAccountRequest 0 \<lparr>public_maid = ''m'', public_anmaid = ''a''\<rparr>]"
  by (simp add: facade_defs MaidNodeNfs_def)

text \<open>
  Claim C6, amended: a call of \<^verbatim>\<open>CreateAccount\<close>, \<^verbatim>\<open>RegisterPmid\<close> or
  \<^verbatim>\<open>GetPmidHealth\<close> allocates a task identifier, then adds the timer task with the
  supplied timeout and the expected response count, then dispatches the request, in this
  order, and nothing in the call resolves the promise. When the routing layer accepts
  the send, the call returns the future of that promise, still unresolved; when it does
  not, the \<open>TransportUnavailable\<close> of the send leaves the call and no future is
  returned. The calls are made on states whose identifiers are fresh, which is every state
  the facade reaches (\<open>reachable_ids_fresh\<close>).
\<close>

theorem correlated_operations_order:
  assumes "ids_fresh s"
  shows
   "fst (MaidNodeNfs_CreateAccount group_size account_creation t s) =
      (if accepts (routing s) then Inr (promise_count s) else Inl TransportUnavailable)
    \<and> calls (snd (MaidNodeNfs_CreateAccount group_size account_creation t s)) = calls s @
       [Call_NewTaskId create_account_timer (new_task_id (timers s create_account_timer)),
        Call_AddTask create_account_timer t
          \<lparr>successes_required = group_size - 1,
           callback = HandleCreateAccountResult (promise_count s)\<rparr>
          (group_size * 2) (new_task_id (timers s create_account_timer)),
        Call_SendCreateAccountRequest (new_task_id (timers s create_account_timer))
          account_creation]
    \<and> promises (snd (MaidNodeNfs_CreateAccount group_size account_creation t s))
         (promise_count s) = unresolved
    \<and> fst (MaidNodeNfs_RegisterPmid group_size pmid_registration t s) =
      (if accepts (routing s) then Inr (promise_count s) else Inl TransportUnavailable)
    \<and> calls (snd (MaidNodeNfs_RegisterPmid group_size pmid_registration t s)) = calls s @
       [Call_NewTaskId create_account_timer (new_task_id (timers s create_account_timer)),
        Call_AddTask register_pmid_timer t
          \<lparr>successes_required = group_size - 1,
           callback = HandleRegisterPmidResult (promise_count s)\<rparr>
          (group_size - 1) (new_task_id (timers s create_account_timer)),
        Call_SendRegisterPmidRequest (new_task_id (timers s create_account_timer))
          pmid_registration]
    \<and> promises (snd (MaidNodeNfs_RegisterPmid group_size pmid_registration t s))
         (promise_count s) = unresolved
    \<and> fst (MaidNodeNfs_GetPmidHealth group_size pmid_name t s) =
      (if accepts (routing s) then Inr (promise_count s) else Inl TransportUnavailable)
    \<and> calls (snd (MaidNodeNfs_GetPmidHealth group_size pmid_name t s)) = calls s @
       [Call_NewTaskId pmid_health_timer (new_task_id (timers s pmid_health_timer)),
        Call_AddTask pmid_health_timer t
          \<lparr>successes_required = group_size - 1,
           callback = HandlePmidHealthResult (promise_count s)\<rparr>
          (group_size - 1) (new_task_id (timers s pmid_health_timer)),
        Call_SendPmidHealthRequest (new_task_id (timers s pmid_health_timer)) pmid_name]
    \<and> promises (snd (MaidNodeNfs_GetPmidHealth group_size pmid_name t s))
         (promise_count s) = unresolved"
  by (simp only: CreateAccount_result(1-3) [OF assms] RegisterPmid_result(1-3) [OF assms]
      GetPmidHealth_result(1-3) [OF assms] simp_thms)

theorem correlated_operations_order_witness:
  "ids_fresh (MaidNodeNfs (Routing True) ''hint'')
   \<and> fst (MaidNodeNfs_CreateAccount 4 \<lparr>public_maid = ''m'', public_anmaid = ''a''\<rparr> 30
           (MaidNodeNfs (Routing True) ''hint'')) = Inr 0
   \<and> calls (snd (MaidNodeNfs_CreateAccount 4 \<lparr>public_maid = ''m'', public_anmaid = ''a''\<rparr> 30
           (MaidNodeNfs (Routing True) ''hint''))) =
       [Call_NewTaskId create_account_timer 0,
        Call_AddTask create_account_timer 30
          \<lparr>successes_required = 3, callback = HandleCreateAccountResult 0\<rparr> 8 0,
        Call_SendCreateAccountRequest 0 \<lparr>public_maid = ''m'', public_anmaid = ''a''\<rparr>]
   \<and> promises (snd (MaidNodeNfs_CreateAccount 4 \<lparr>public_maid = ''m'', public_anmaid = ''a''\<rparr> 30
           (MaidNodeNfs (Routing True) ''hint''))) 0 = unresolved
   \<and> calls (snd (MaidNodeNfs_GetPmidHealth 4 ''pmid'' 30 (MaidNodeNfs (Routing True) ''hint''))) =
       [Call_NewTaskId pmid_health_timer 0,
        Call_AddTask pmid_health_timer 30
          \<lparr>successes_required = 3, callback = HandlePmidHealthResult 0\<rparr> 3 0,
        Call_SendPmidHealthRequest 0 ''pmid'']"
proof -
  have f: "ids_fresh (MaidNodeNfs (Routing True) ''hint'')"
    by (rule ids_fresh_MaidNodeNfs)
  have v: "promise_count (MaidNodeNfs (Routing True) ''hint'') = 0"
    "calls (MaidNodeNfs (Routing True) ''hint'') = []"
    "new_task_id (timers (MaidNodeNfs (Routing True) ''hint'') create_account_timer) = 0"
    "new_task_id (timers (MaidNodeNfs (Routing True) ''hint'') pmid_health_timer) = 0"
    "accepts (routing (MaidNodeNfs (Routing True) ''hint''))"
    by (simp_all add: MaidNodeNfs_def)
  from f correlated_operations_order
      [OF f, of 4 "\<lparr>public_maid = ''m'', public_anmaid = ''a''\<rparr>" 30 "''reg''" "''pmid''"]
  show ?thesis by (simp add: v)
qed

text \<open>
  Claim C7: the identifier registered with a timer was allocated by the allocator of
  that same timer. \<^verbatim>\<open>RegisterPmid\<close> takes its identifier from
  \<^verbatim>\<open>create_account_timer_.NewTaskId()\<close> and adds the task to
  \<^verbatim>\<open>register_pmid_timer_\<close>, whereas \<^verbatim>\<open>CreateAccount\<close> and \<^verbatim>\<open>GetPmidHealth\<close>
  allocate on the timer they register with. The evaluation is a first call of
  \<^verbatim>\<open>RegisterPmid\<close> on a new facade: the counter of \<^verbatim>\<open>create_account_timer_\<close>
  advances, the counter of \<^verbatim>\<open>register_pmid_timer_\<close> does not, and the identifier 0
  that the allocator of \<^verbatim>\<open>register_pmid_timer_\<close> would hand out next is the one of the
  entry now pending there. The first revision has the same slip in \<^verbatim>\<open>CreateAccount\<close>,
  which allocates on \<^verbatim>\<open>get_timer_\<close>.
\<close>

theorem RegisterPmid_allocates_on_create_account_timer:
  "new_calls (MaidNodeNfs (Routing True) ''hint'')
     (snd (MaidNodeNfs_RegisterPmid 4 ''reg'' 30 (MaidNodeNfs (Routing True) ''hint''))) =
     [Call_NewTaskId create_account_timer 0,
      Call_AddTask register_pmid_timer 30
        \<lparr>successes_required = 3, callback = HandleRegisterPmidResult 0\<rparr> 3 0,
      Call_SendRegisterPmidRequest 0 ''reg'']
   \<and> new_task_id (timers (snd (MaidNodeNfs_RegisterPmid 4 ''reg'' 30
        (MaidNodeNfs (Routing True) ''hint''))) create_account_timer) = 1
   \<and> new_task_id (timers (snd (MaidNodeNfs_RegisterPmid 4 ''reg'' 30
        (MaidNodeNfs (Routing True) ''hint''))) register_pmid_timer) = 0
   \<and> tasks (timers (snd (MaidNodeNfs_RegisterPmid 4 ''reg'' 30
        (MaidNodeNfs (Routing True) ''hint''))) register_pmid_timer) 0 =
       Some \<lparr>timeout = 30,
             functor = \<lparr>successes_required = 3, callback = HandleRegisterPmidResult 0\<rparr>,
             expected_response_count = 3\<rparr>
   \<and> fst (Timer_NewTaskId register_pmid_timer
        (snd (MaidNodeNfs_RegisterPmid 4 ''reg'' 30 (MaidNodeNfs (Routing True) ''hint'')))) = 0
   \<and> new_calls (MaidNodeNfs (Routing True) ''hint'')
     (snd (MaidNodeNfs_CreateAccount_rev1 4 \<lparr>public_maid = ''m'', public_anmaid = ''a''\<rparr> 30
        (MaidNodeNfs (Routing True) ''hint''))) =
     [Call_NewTaskId get_timer 0,
      Call_AddTask create_account_timer 30
        \<lparr>successes_required = 3, callback = HandleCreateAccountResult 0\<rparr> 8 0,
      Call_SendCreateAccountRequest 0 \<lparr>public_maid = ''m'', public_anmaid = ''a''\<rparr>]"
  by (simp add: facade_defs MaidNodeNfs_CreateAccount_rev1_def MaidNodeNfs_def new_calls_def)

text \<open>
  Claim C8: the task that \<^verbatim>\<open>CreateAccount\<close> registers holds an \<^verbatim>\<open>OpData\<close> that
  requires group size - 1 successes and an expected response count of group size * 2;
  the tasks of \<^verbatim>\<open>RegisterPmid\<close> and \<^verbatim>\<open>GetPmidHealth\<close> hold group size - 1 for
  both. The task is registered before the send, whatever becomes of the send.
\<close>

theorem quorum_parameters:
  assumes "ids_fresh s"
  shows
   "tasks (timers (snd (MaidNodeNfs_CreateAccount group_size account_creation t s))
       create_account_timer) (new_task_id (timers s create_account_timer)) =
      Some \<lparr>timeout = t,
            functor = \<lparr>successes_required = group_size - 1,
                       callback = HandleCreateAccountResult (promise_count s)\<rparr>,
            expected_response_count = group_size * 2\<rparr>
    \<and> tasks (timers (snd (MaidNodeNfs_RegisterPmid group_size pmid_registration t s))
       register_pmid_timer) (new_task_id (timers s create_account_timer)) =
      Some \<lparr>timeout = t,
            functor = \<lparr>successes_required = group_size - 1,
                       callback = HandleRegisterPmidResult (promise_count s)\<rparr>,
            expected_response_count = group_size - 1\<rparr>
    \<and> tasks (timers (snd (MaidNodeNfs_GetPmidHealth group_size pmid_name t s))
       pmid_health_timer) (new_task_id (timers s pmid_health_timer)) =
      Some \<lparr>timeout = t,
            functor = \<lparr>successes_required = group_size - 1,
                       callback = HandlePmidHealthResult (promise_count s)\<rparr>,
            expected_response_count = group_size - 1\<rparr>"
  by (simp only: CreateAccount_result(4) [OF assms] RegisterPmid_result(4) [OF assms]
      GetPmidHealth_result(4) [OF assms] simp_thms)

theorem quorum_parameters_witness:
  "ids_fresh (MaidNodeNfs (Routing True) ''hint'')
   \<and> tasks (timers (snd (MaidNodeNfs_CreateAccount 4
         \<lparr>public_maid = ''m'', public_anmaid = ''a''\<rparr> 30 (MaidNodeNfs (Routing True) ''hint'')))
       create_account_timer) 0 =
      Some \<lparr>timeout = 30,
            functor = \<lparr>successes_required = 3, callback = HandleCreateAccountResult 0\<rparr>,
            expected_response_count = 8\<rparr>
   \<and> tasks (timers (snd (MaidNodeNfs_RegisterPmid 4 ''reg'' 30
         (MaidNodeNfs (Routing True) ''hint''))) register_pmid_timer) 0 =
      Some \<lparr>timeout = 30,
            functor = \<lparr>successes_required = 3, callback = HandleRegisterPmidResult 0\<rparr>,
            expected_response_count = 3\<rparr>
   \<and> tasks (timers (snd (MaidNodeNfs_GetPmidHealth 4 ''pmid'' 30
         (MaidNodeNfs (Routing True) ''hint''))) pmid_health_timer) 0 =
      Some \<lparr>timeout = 30,
            functor = \<lparr>successes_required = 3, callback = HandlePmidHealthResult 0\<rparr>,
            expected_response_count = 3\<rparr>"
proof -
  have f: "ids_fresh (MaidNodeNfs (Routing True) ''hint'')"
    by (rule ids_fresh_MaidNodeNfs)
  have v: "promise_count (MaidNodeNfs (Routing True) ''hint'') = 0"
    "new_task_id (timers (MaidNodeNfs (Routing True) ''hint'') create_account_timer) = 0"
    "new_task_id (timers (MaidNodeNfs (Routing True) ''hint'') pmid_health_timer) = 0"
    by (simp_all add: MaidNodeNfs_def)
  from f quorum_parameters
      [OF f, of 4 "\<lparr>public_maid = ''m'', public_anmaid = ''a''\<rparr>" 30 "''reg''" "''pmid''"]
  show ?thesis by (simp add: v)
qed

text \<open>
  Claim C9: when the future that \<^verbatim>\<open>MaidNodeNfs::CreateAccount\<close> returned is rejected,
  within the wait, with \<^verbatim>\<open>account_already_exists\<close> or \<^verbatim>\<open>unique_data_clash\<close>, the
  free function \<^verbatim>\<open>CreateAccount\<close> prints that the account already existed and returns
  normally.
\<close>

theorem CreateAccount_already_exists_is_not_fatal:
  assumes "fst (MaidNodeNfs_CreateAccount group_size
              \<lparr>public_maid = maid, public_anmaid = anmaid\<rparr> default_timeout client_nfs) =
           Inr future"
    and "promises
           (others (snd (MaidNodeNfs_CreateAccount group_size
              \<lparr>public_maid = maid, public_anmaid = anmaid\<rparr> default_timeout client_nfs)))
           future = has_exception (maidsafe_error c)"
    and "c = VaultErrors_account_already_exists \<or> c = VaultErrors_unique_data_clash"
  shows "CreateAccount group_size default_timeout others maid anmaid client_nfs =
     (Inr (),
      record_call (Call_cout account_already_existed)
        (others (snd (MaidNodeNfs_CreateAccount group_size
           \<lparr>public_maid = maid, public_anmaid = anmaid\<rparr> default_timeout client_nfs))))"
proof -
  let ?r = "MaidNodeNfs_CreateAccount group_size
              \<lparr>public_maid = maid, public_anmaid = anmaid\<rparr> default_timeout client_nfs"
  have r: "?r = (Inr future, snd ?r)"
    using assms(1) by (metis prod.collapse)
  show ?thesis
    unfolding CreateAccount_def
    apply (subst r)
    using assms(2,3) by (auto simp add: wait_for_def Let_def)
qed

theorem CreateAccount_already_exists_is_not_fatal_witness:
  "fst (MaidNodeNfs_CreateAccount 4 \<lparr>public_maid = ''m'', public_anmaid = ''a''\<rparr> 30
         (MaidNodeNfs (Routing True) ''hint'')) = Inr 0
   \<and> fst (CreateAccount 4 30 (set_exception 0 (maidsafe_error VaultErrors_account_already_exists))
        ''m'' ''a'' (MaidNodeNfs (Routing True) ''hint'')) = Inr ()
   \<and> filter is_send (calls (snd (CreateAccount 4 30
        (set_exception 0 (maidsafe_error VaultErrors_account_already_exists))
        ''m'' ''a'' (MaidNodeNfs (Routing True) ''hint'')))) =
       [Call_SendCreateAccountRequest 0 \<lparr>public_maid = ''m'', public_anmaid = ''a''\<rparr>]"
proof -
  let ?s0 = "MaidNodeNfs (Routing True) ''hint''"
  have f: "ids_fresh ?s0"
    by (rule ids_fresh_MaidNodeNfs)
  have r: "fst (MaidNodeNfs_CreateAccount 4 \<lparr>public_maid = ''m'', public_anmaid = ''a''\<rparr> 30 ?s0)
      = Inr 0"
    using CreateAccount_result(1) [OF f, of 4 "\<lparr>public_maid = ''m'', public_anmaid = ''a''\<rparr>" 30]
    by (simp add: MaidNodeNfs_def)
  have p: "promises
           (set_exception 0 (maidsafe_error VaultErrors_account_already_exists)
              (snd (MaidNodeNfs_CreateAccount 4
              \<lparr>public_maid = ''m'', public_anmaid = ''a''\<rparr> 30 ?s0)))
           0 =
        has_exception (maidsafe_error VaultErrors_account_already_exists)"
    by (simp add: set_exception_def)
  have c: "calls (snd (MaidNodeNfs_CreateAccount 4
              \<lparr>public_maid = ''m'', public_anmaid = ''a''\<rparr> 30 ?s0)) =
       [Call_NewTaskId create_account_timer 0,
        Call_AddTask create_account_timer 30
          \<lparr>successes_required = 3, callback = HandleCreateAccountResult 0\<rparr> 8 0,
        Call_SendCreateAccountRequest 0 \<lparr>public_maid = ''m'', public_anmaid = ''a''\<rparr>]"
    using CreateAccount_result(2) [OF f, of 4 "\<lparr>public_maid = ''m'', public_anmaid = ''a''\<rparr>" 30]
    by (simp add: MaidNodeNfs_def)
  note th = CreateAccount_already_exists_is_not_fatal
      [where client_nfs = ?s0
         and others = "set_exception 0 (maidsafe_error VaultErrors_account_already_exists)"
         and group_size = 4 and maid = "''m''" and anmaid = "''a''"
         and default_timeout = 30 and c = VaultErrors_account_already_exists
         and future = 0, OF r p]
  from r c th show ?thesis by (simp add: record_call_def set_exception_def)
qed

text \<open>
  Claim C10: \<^verbatim>\<open>pmid_node_hint()\<close> returns the value of the last
  \<^verbatim>\<open>set_pmid_node_hint\<close>, or the hint given to the constructor, and none of the five
  operations changes it, in either revision, whether the operation returns or throws.
\<close>

theorem pmid_node_hint_is_a_plain_variable:
  "MaidNodeNfs_pmid_node_hint (MaidNodeNfs_set_pmid_node_hint v s) = v
   \<and> MaidNodeNfs_pmid_node_hint (MaidNodeNfs r h) = h
   \<and> MaidNodeNfs_pmid_node_hint (snd (MaidNodeNfs_CreateAccount group_size account_creation t s))
       = MaidNodeNfs_pmid_node_hint s
   \<and> MaidNodeNfs_pmid_node_hint (snd (MaidNodeNfs_RemoveAccount account_removal s))
       = MaidNodeNfs_pmid_node_hint s
   \<and> MaidNodeNfs_pmid_node_hint (snd (MaidNodeNfs_RegisterPmid group_size pmid_registration t s))
       = MaidNodeNfs_pmid_node_hint s
   \<and> MaidNodeNfs_pmid_node_hint (snd (MaidNodeNfs_UnregisterPmid pmid_name s))
       = MaidNodeNfs_pmid_node_hint s
   \<and> MaidNodeNfs_pmid_node_hint (snd (MaidNodeNfs_GetPmidHealth group_size pmid_name t s))
       = MaidNodeNfs_pmid_node_hint s
   \<and> MaidNodeNfs_pmid_node_hint
        (snd (MaidNodeNfs_CreateAccount_rev1 group_size account_creation t s))
       = MaidNodeNfs_pmid_node_hint s
   \<and> MaidNodeNfs_pmid_node_hint (snd (MaidNodeNfs_RemoveAccount_rev1 ndebug s))
       = MaidNodeNfs_pmid_node_hint s
   \<and> MaidNodeNfs_pmid_node_hint (snd (MaidNodeNfs_RegisterPmid_rev1 ndebug pmid_registration s))
       = MaidNodeNfs_pmid_node_hint s
   \<and> MaidNodeNfs_pmid_node_hint (snd (MaidNodeNfs_UnregisterPmid_rev1 ndebug pmid_registration s))
       = MaidNodeNfs_pmid_node_hint s
   \<and> MaidNodeNfs_pmid_node_hint (snd (MaidNodeNfs_GetPmidHealth_rev1 ndebug pmid s))
       = MaidNodeNfs_pmid_node_hint s"
  by (simp add: MaidNodeNfs_pmid_node_hint_def MaidNodeNfs_set_pmid_node_hint_def MaidNodeNfs_def
      facade_defs MaidNodeNfs_CreateAccount_rev1_def MaidNodeNfs_RemoveAccount_rev1_def
      MaidNodeNfs_RegisterPmid_rev1_def MaidNodeNfs_UnregisterPmid_rev1_def
      MaidNodeNfs_GetPmidHealth_rev1_def assert_0_def split: option.splits)

end
